theory Spec2Isabelle
  imports Main "HOL-Library.AList"
begin

section \<open>Python values used by the executor and the agent caller\<close>

text \<open>
  Strings are ASCII text (\<^typ>\<open>string\<close>). A Python \<^verbatim>\<open>dict\<close> is an association list in
  insertion order; \<^verbatim>\<open>d.get(k, default)\<close> and \<^verbatim>\<open>d[k] = v\<close> are \<open>dict_get\<close> and
  \<open>dict_set\<close> (an existing key keeps its position, a new key goes to the end).
\<close>

definition dict_get :: "('k \<times> 'v) list \<Rightarrow> 'k \<Rightarrow> 'v \<Rightarrow> 'v" where
  "dict_get d k dflt = (case map_of d k of None \<Rightarrow> dflt | Some v \<Rightarrow> v)"

definition dict_set :: "('k \<times> 'v) list \<Rightarrow> 'k \<Rightarrow> 'v \<Rightarrow> ('k \<times> 'v) list" where
  "dict_set d k v = AList.update k v d"

definition dict_keys :: "('k \<times> 'v) list \<Rightarrow> 'k list" where
  "dict_keys d = map fst d"

text \<open>Exceptions carry their message; \<open>str(exc)\<close> reads it.\<close>

datatype exn = KeyError string | ValueError string | IndexError string | Exception string

fun exn_str :: "exn \<Rightarrow> string" where
  "exn_str (KeyError m) = m"
| "exn_str (ValueError m) = m"
| "exn_str (IndexError m) = m"
| "exn_str (Exception m) = m"

text \<open>The scalar payloads an agent's \<open>output.result\<close> (typed \<open>Any\<close>) may hold, and \<open>str()\<close> on them.\<close>

datatype pyval = PNone | PBool bool | PInt int | PStr string

definition digit_char :: "nat \<Rightarrow> char" where
  "digit_char d = ''0123456789'' ! d"

fun str_nat :: "nat \<Rightarrow> string" where
  "str_nat n = (if n < 10 then [digit_char n] else str_nat (n div 10) @ [digit_char (n mod 10)])"

definition str_int :: "int \<Rightarrow> string" where
  "str_int i = (if i < 0 then CHR ''-'' # str_nat (nat (- i)) else str_nat (nat i))"

fun py_str :: "pyval \<Rightarrow> string" where
  "py_str PNone = ''None''"
| "py_str (PBool b) = (if b then ''True'' else ''False'')"
| "py_str (PInt i) = str_int i"
| "py_str (PStr s) = s"

text \<open>JSON-like values of the handshake's \<open>input\<close> mapping.\<close>

datatype jval = JStr string | JObj "(string \<times> jval) list"

section \<open>Data model\<close>

text \<open>
  Modelled from the spec: \<^verbatim>\<open>app/models.py\<close> is not among the sources. The records below
  hold the fields that \<^verbatim>\<open>agent_caller.py\<close> and \<^verbatim>\<open>executor.py\<close> read and write, typed as
  section 3 of the specification lists them.
\<close>

record AgentMetadata =
  meta_name :: string
  meta_type :: string
  meta_endpoint :: "string option"
  meta_timeout_ms :: int

record OutputModel =
  out_result :: pyval

record ErrorModel =
  err_type :: string
  err_message :: string

record AgentResponse =
  resp_request_id :: string
  resp_agent_name :: string
  resp_status :: string
  resp_output :: "OutputModel option"
  resp_error :: "ErrorModel option"

text \<open>
  The context built by \<^verbatim>\<open>handle_query\<close> in \<^verbatim>\<open>server.py\<close>: three strings and the list of
  uploads, each upload a dict of strings. \<open>ctx_file_uploads\<close> is \<open>None\<close> when the key is missing.
\<close>

type_synonym file_upload = "(string \<times> string) list"

record agent_context =
  ctx_user_id :: string
  ctx_conversation_id :: string
  ctx_timestamp :: string
  ctx_file_uploads :: "file_upload list option"

record AgentRequest =
  req_request_id :: string
  req_agent_name :: string
  req_intent :: string
  req_input :: "(string \<times> jval) list"
  req_context :: agent_context

record UsedAgentEntry =
  used_name :: string
  used_intent :: string
  used_status :: string

record Step =
  step_id :: int
  step_agent :: string
  step_intent :: string
  step_input_source :: string

record Plan =
  steps :: "Step list"

section \<open>The outside world of one invocation\<close>

text \<open>
  \<^verbatim>\<open>uuid.uuid4()\<close> and the HTTP client are the effects of \<^verbatim>\<open>call_agent\<close>. The \<open>transport\<close>
  fixes what they answer: whether \<^verbatim>\<open>httpx\<close> could be imported, the identifier drawn at the
  \<open>n\<close>-th call, and the outcome of the \<open>n\<close>-th call's \<^verbatim>\<open>client.post(endpoint, json=handshake)\<close>
  under the client's timeout. A post either raises (connection failure, timeout), or replies with
  a status code and a body that either parses and validates as an \<open>AgentResponse\<close> or makes
  \<^verbatim>\<open>AgentResponse(**resp.json())\<close> raise. The \<open>world\<close> counts the calls made and keeps the
  requests posted, in order.
\<close>

datatype reply_body = Unparsable string | Parsed AgentResponse

datatype post_outcome = Raised string | Replied int reply_body

record transport =
  httpx_installed :: bool
  uuid4 :: "nat \<Rightarrow> string"
  post :: "nat \<Rightarrow> string \<Rightarrow> int \<Rightarrow> AgentRequest \<Rightarrow> post_outcome"

record world =
  calls :: nat
  posted :: "(string \<times> AgentRequest) list"

section \<open>agent_caller.py\<close>

text \<open>Lines 40-63: the metadata of the handshake. The logging calls have no effect on the result.\<close>

definition build_metadata :: "agent_context \<Rightarrow> (string \<times> jval) list" where
  "build_metadata ctx =
    (let metadata = [(''language'', JStr ''en''), (''extra'', JObj [])];
         file_uploads = (case ctx_file_uploads ctx of None \<Rightarrow> [] | Some fs \<Rightarrow> fs)
     in case file_uploads of
          [] \<Rightarrow> metadata
        | first_file # _ \<Rightarrow>
            (let base64 = dict_get first_file ''base64_data'' ''''
             in if base64 \<noteq> ''''
                then dict_set
                       (dict_set
                          (dict_set metadata ''file_base64'' (JStr base64))
                          ''mime_type'' (JStr (dict_get first_file ''mime_type'' ''application/octet-stream'')))
                       ''filename'' (JStr (dict_get first_file ''filename'' ''uploaded_file''))
                else metadata))"

text \<open>Lines 65-71. The parameter \<open>custom_input\<close> of \<^verbatim>\<open>call_agent\<close> is not read there.\<close>

definition build_handshake ::
    "string \<Rightarrow> AgentMetadata \<Rightarrow> string \<Rightarrow> string \<Rightarrow> agent_context \<Rightarrow> AgentRequest" where
  "build_handshake request_id agent_meta intent text ctx =
    \<lparr> req_request_id = request_id,
      req_agent_name = meta_name agent_meta,
      req_intent = intent,
      req_input = [(''text'', JStr text), (''metadata'', JObj (build_metadata ctx))],
      req_context = ctx \<rparr>"

definition error_response :: "string \<Rightarrow> AgentMetadata \<Rightarrow> string \<Rightarrow> string \<Rightarrow> AgentResponse" where
  "error_response request_id agent_meta ty msg =
    \<lparr> resp_request_id = request_id,
      resp_agent_name = meta_name agent_meta,
      resp_status = ''error'',
      resp_output = None,
      resp_error = Some \<lparr> err_type = ty, err_message = msg \<rparr> \<rparr>"

text \<open>Python truthiness of \<open>agent_meta.endpoint\<close>: neither \<open>None\<close> nor the empty string.\<close>

definition endpoint_set :: "AgentMetadata \<Rightarrow> bool" where
  "endpoint_set agent_meta = (case meta_endpoint agent_meta of None \<Rightarrow> False | Some e \<Rightarrow> e \<noteq> '''')"

text \<open>The endpoint as the http branch reads it; that branch is entered only when it is set.\<close>

definition endpoint_url :: "AgentMetadata \<Rightarrow> string" where
  "endpoint_url agent_meta = (case meta_endpoint agent_meta of None \<Rightarrow> '''' | Some e \<Rightarrow> e)"

text \<open>Lines 76-88, the body of the \<^verbatim>\<open>try\<close>: \<open>Inl\<close> is an exception raised inside it.\<close>

definition http_attempt ::
    "transport \<Rightarrow> nat \<Rightarrow> AgentMetadata \<Rightarrow> string \<Rightarrow> AgentRequest \<Rightarrow> exn + AgentResponse" where
  "http_attempt tr n agent_meta request_id handshake =
    (case post tr n (endpoint_url agent_meta) (meta_timeout_ms agent_meta) handshake of
       Raised msg \<Rightarrow> Inl (Exception msg)
     | Replied status_code body \<Rightarrow>
         if status_code \<noteq> 200
         then Inr (error_response request_id agent_meta ''http_error''
                     (''HTTP '' @ str_int status_code @ '' calling '' @ endpoint_url agent_meta))
         else (case body of
                 Unparsable msg \<Rightarrow> Inl (Exception msg)
               | Parsed r \<Rightarrow> Inr r))"

text \<open>
  \<^verbatim>\<open>call_agent\<close>, lines 21-116. The result is the returned response, or \<open>Inl\<close> for an
  exception that leaves the function, together with the world after the call.
\<close>

definition call_agent ::
    "transport \<Rightarrow> AgentMetadata \<Rightarrow> string \<Rightarrow> string \<Rightarrow> agent_context \<Rightarrow> (string \<times> jval) list option
      \<Rightarrow> world \<Rightarrow> (exn + AgentResponse) \<times> world" where
  "call_agent tr agent_meta intent text ctx custom_input w =
    (let n = calls w;
         request_id = uuid4 tr n;
         handshake = build_handshake request_id agent_meta intent text ctx;
         w1 = w\<lparr>calls := Suc n\<rparr>
     in if meta_type agent_meta = ''http'' \<and> endpoint_set agent_meta \<and> httpx_installed tr
        then (case http_attempt tr n agent_meta request_id handshake of
                Inr r \<Rightarrow> Inr r
              | Inl exc \<Rightarrow> Inr (error_response request_id agent_meta ''network_error'' (exn_str exc)),
              w1\<lparr>posted := posted w1 @ [(endpoint_url agent_meta, handshake)]\<rparr>)
        else if meta_type agent_meta = ''http'' \<and> \<not> httpx_installed tr
        then (Inr (error_response request_id agent_meta ''config_error''
                     ''httpx not installed for HTTP agent calls''), w1)
        else if meta_type agent_meta = ''cli''
        then (Inr (error_response request_id agent_meta ''not_implemented''
                     ''CLI agent execution is not implemented''), w1)
        else (Inr (error_response request_id agent_meta ''config_error''
                     ''Agent endpoint/command not configured''), w1))"

section \<open>executor.py: resolve_input\<close>

text \<open>\<^verbatim>\<open>s.startswith(p)\<close>, \<^verbatim>\<open>s.split(c)\<close> for a one-character separator, and \<^verbatim>\<open>xs[i]\<close>.\<close>

definition startswith :: "string \<Rightarrow> string \<Rightarrow> bool" where
  "startswith s p = (take (length p) s = p)"

fun split_on :: "char \<Rightarrow> string \<Rightarrow> string list" where
  "split_on c [] = [[]]"
| "split_on c (x # xs) =
     (if x = c then [] # split_on c xs
      else (case split_on c xs of [] \<Rightarrow> [[x]] | p # ps \<Rightarrow> (x # p) # ps))"

definition py_nth :: "'a list \<Rightarrow> nat \<Rightarrow> exn + 'a" where
  "py_nth xs i = (if i < length xs then Inr (xs ! i) else Inl (IndexError ''list index out of range''))"

text \<open>
  \<^verbatim>\<open>int(s)\<close> on ASCII text: surrounding whitespace is stripped, one sign may lead, and the
  rest is decimal digits, single underscores allowed between two digits. Anything else raises
  \<open>ValueError\<close>.
\<close>

definition is_space :: "char \<Rightarrow> bool" where
  "is_space c = (c \<in> set [CHR '' '', CHR 0x09, CHR 0x0A, CHR 0x0B, CHR 0x0C, CHR 0x0D])"

definition is_digit :: "char \<Rightarrow> bool" where
  "is_digit c = (c \<in> set ''0123456789'')"

definition digit_val :: "char \<Rightarrow> nat" where
  "digit_val c = length (takeWhile (\<lambda>d. d \<noteq> c) ''0123456789'')"

definition strip :: "string \<Rightarrow> string" where
  "strip s = rev (dropWhile is_space (rev (dropWhile is_space s)))"

fun parse_digits :: "nat \<Rightarrow> string \<Rightarrow> nat option" where
  "parse_digits acc [] = Some acc"
| "parse_digits acc [c] = (if is_digit c then Some (acc * 10 + digit_val c) else None)"
| "parse_digits acc (c # d # ds) =
     (if is_digit c then parse_digits (acc * 10 + digit_val c) (d # ds)
      else if c = CHR ''_'' \<and> is_digit d then parse_digits (acc * 10 + digit_val d) ds
      else None)"

definition parse_unsigned :: "string \<Rightarrow> nat option" where
  "parse_unsigned s =
    (case s of [] \<Rightarrow> None
     | c # cs \<Rightarrow> if is_digit c then parse_digits (digit_val c) cs else None)"

definition py_int :: "string \<Rightarrow> exn + int" where
  "py_int s =
    (let t = strip s;
         v = (case t of
                [] \<Rightarrow> None
              | c # cs \<Rightarrow>
                  if c = CHR ''-'' then map_option (\<lambda>n. - int n) (parse_unsigned cs)
                  else if c = CHR ''+'' then map_option int (parse_unsigned cs)
                  else map_option int (parse_unsigned t))
     in case v of
          None \<Rightarrow> Inl (ValueError ''invalid literal for int() with base 10'')
        | Some i \<Rightarrow> Inr i)"

text \<open>
  \<^verbatim>\<open>resolve_input\<close>, lines 20-35. \<open>Inl\<close> is an exception that leaves the function; the
  \<open>ValueError\<close> of \<^verbatim>\<open>int\<close> is caught inside and falls through to the last \<^verbatim>\<open>return\<close>.
\<close>

definition resolve_input :: "string \<Rightarrow> string \<Rightarrow> (int \<times> AgentResponse) list \<Rightarrow> exn + string" where
  "resolve_input input_source user_query outputs =
    (if input_source = ''user_query'' then Inr user_query
     else if startswith input_source ''step:'' then
       (let parts = split_on CHR '':'' input_source
        in if length parts \<ge> 2 then
             (case py_nth parts 1 of
                Inl exc \<Rightarrow> Inl exc
              | Inr part \<Rightarrow>
                  (case py_nth (split_on CHR ''.'' part) 0 of
                     Inl exc \<Rightarrow> Inl exc
                   | Inr step_id_str \<Rightarrow>
                       (case py_int step_id_str of
                          Inl exc \<Rightarrow> Inr user_query
                        | Inr sid \<Rightarrow>
                            (case map_of outputs sid of
                               None \<Rightarrow> Inr user_query
                             | Some prior \<Rightarrow>
                                 (case resp_output prior of
                                    None \<Rightarrow> Inr user_query
                                  | Some out \<Rightarrow> Inr (py_str (out_result out)))))))
           else Inr user_query)
     else Inr user_query)"

section \<open>executor.py: execute_plan\<close>

text \<open>
  Modelled from the spec: \<^verbatim>\<open>app/registry.py\<close> is not among the sources. Its
  \<^verbatim>\<open>find_agent_by_name(name, registry)\<close> is the lookup of section 6 of the specification,
  "AgentMetadata | not-found", which section 4.4, step 1 words as: look up agent metadata by name
  in the registry; if absent, the invocation proceeds with a metadata value that signals "not
  found" and resolves to a \<open>config_error\<close> response. The not-found value carries the name that
  was asked for, no endpoint, and a type that is neither \<open>http\<close> nor \<open>cli\<close>. The result type
  keeps room for the \<open>KeyError\<close> that the handler at lines 85-87 of \<^verbatim>\<open>executor.py\<close> names;
  the lookup as the specification words it returns for every name.
\<close>

definition not_found_metadata :: "string \<Rightarrow> AgentMetadata" where
  "not_found_metadata name =
    \<lparr> meta_name = name, meta_type = ''not_found'', meta_endpoint = None, meta_timeout_ms = 0 \<rparr>"

definition find_agent_by_name :: "string \<Rightarrow> AgentMetadata list \<Rightarrow> exn + AgentMetadata" where
  "find_agent_by_name name registry =
    (case find (\<lambda>agent. meta_name agent = name) registry of
       None \<Rightarrow> Inr (not_found_metadata name)
     | Some agent \<Rightarrow> Inr agent)"

text \<open>The two locals of \<^verbatim>\<open>execute_plan\<close> and the world, threaded through the loop.\<close>

record exec_state =
  step_outputs :: "(int \<times> AgentResponse) list"
  used_agents :: "UsedAgentEntry list"
  env :: world

text \<open>Line 76: \<^verbatim>\<open>max(step_outputs.keys()) + 1 if step_outputs else 0\<close>.\<close>

definition next_step_id :: "(int \<times> AgentResponse) list \<Rightarrow> int" where
  "next_step_id outputs = (case dict_keys outputs of [] \<Rightarrow> 0 | k # ks \<Rightarrow> fold max ks k + 1)"

text \<open>
  Lines 65-90, the \<^verbatim>\<open>try\<close> of the auto-trigger with its two handlers: an exception from the
  lookup or from the call leaves both locals as they were.
\<close>

definition auto_chain :: "transport \<Rightarrow> AgentMetadata list \<Rightarrow> agent_context \<Rightarrow> exec_state \<Rightarrow> exec_state" where
  "auto_chain tr registry ctx st =
    (case find_agent_by_name ''task_dependency_agent'' registry of
       Inl exc \<Rightarrow> st
     | Inr tda_meta \<Rightarrow>
         (case call_agent tr tda_meta ''task.resolve_dependencies'' '''' ctx
                 (Some [(''trigger'', JStr ''database_update'')]) (env st) of
            (Inl exc, w) \<Rightarrow> st\<lparr>env := w\<rparr>
          | (Inr tda_response, w) \<Rightarrow>
              st\<lparr>step_outputs :=
                    dict_set (step_outputs st) (next_step_id (step_outputs st)) tda_response,
                 used_agents := used_agents st @
                    [\<lparr> used_name = meta_name tda_meta,
                       used_intent = ''task.resolve_dependencies'',
                       used_status = resp_status tda_response \<rparr>],
                 env := w\<rparr>))"

text \<open>Lines 51-90, one iteration of the loop. \<open>Inl\<close> is an exception that leaves \<^verbatim>\<open>execute_plan\<close>.\<close>

definition exec_step ::
    "transport \<Rightarrow> string \<Rightarrow> AgentMetadata list \<Rightarrow> agent_context \<Rightarrow> Step \<Rightarrow> exec_state \<Rightarrow> exn + exec_state" where
  "exec_step tr query registry ctx step st =
    (case find_agent_by_name (step_agent step) registry of
       Inl exc \<Rightarrow> Inl exc
     | Inr agent_meta \<Rightarrow>
         (case resolve_input (step_input_source step) query (step_outputs st) of
            Inl exc \<Rightarrow> Inl exc
          | Inr text \<Rightarrow>
              (case call_agent tr agent_meta (step_intent step) text ctx None (env st) of
                 (Inl exc, w) \<Rightarrow> Inl exc
               | (Inr response, w) \<Rightarrow>
                   (let st1 = st\<lparr>step_outputs := dict_set (step_outputs st) (step_id step) response,
                                  used_agents := used_agents st @
                                    [\<lparr> used_name = meta_name agent_meta,
                                       used_intent = step_intent step,
                                       used_status = resp_status response \<rparr>],
                                  env := w\<rparr>
                    in if step_agent step = ''KnowledgeBaseBuilderAgent''
                          \<and> resp_status response = ''success''
                          \<and> step_intent step = ''create_task''
                       then Inr (auto_chain tr registry ctx st1)
                       else Inr st1))))"

fun exec_steps ::
    "transport \<Rightarrow> string \<Rightarrow> AgentMetadata list \<Rightarrow> agent_context \<Rightarrow> Step list \<Rightarrow> exec_state \<Rightarrow> exn + exec_state" where
  "exec_steps tr query registry ctx [] st = Inr st"
| "exec_steps tr query registry ctx (step # rest) st =
     (case exec_step tr query registry ctx step st of
        Inl exc \<Rightarrow> Inl exc
      | Inr st' \<Rightarrow> exec_steps tr query registry ctx rest st')"

text \<open>
  \<^verbatim>\<open>execute_plan\<close>, lines 41-92: the ledger and the usage log, and the world after the run.
\<close>

definition execute_plan ::
    "transport \<Rightarrow> string \<Rightarrow> Plan \<Rightarrow> AgentMetadata list \<Rightarrow> agent_context \<Rightarrow> world
      \<Rightarrow> exn + ((int \<times> AgentResponse) list \<times> UsedAgentEntry list) \<times> world" where
  "execute_plan tr query plan registry ctx w =
    (case exec_steps tr query registry ctx (steps plan)
            \<lparr> step_outputs = [], used_agents = [], env = w \<rparr> of
       Inl exc \<Rightarrow> Inl exc
     | Inr st \<Rightarrow> Inr ((step_outputs st, used_agents st), env st))"

section \<open>Reference behaviour from the specification\<close>

text \<open>
  The contract of the input resolver as section 4.1 of the specification words it, to be compared
  with \<open>resolve_input\<close>. The leading id segment of a reference is the text after \<open>step:\<close> up
  to the first dot or colon.
\<close>

definition leading_id_segment :: "string \<Rightarrow> string" where
  "leading_id_segment input_source =
     takeWhile (\<lambda>c. c \<noteq> CHR '':'' \<and> c \<noteq> CHR ''.'') (drop 5 input_source)"

definition resolve_input_contract :: "string \<Rightarrow> string \<Rightarrow> (int \<times> AgentResponse) list \<Rightarrow> string" where
  "resolve_input_contract input_source user_query ledger =
    (if input_source = ''user_query'' then user_query
     else if startswith input_source ''step:'' then
       (case py_int (leading_id_segment input_source) of
          Inl parse_failure \<Rightarrow> user_query
        | Inr sid \<Rightarrow>
            (case map_of ledger sid of
               None \<Rightarrow> user_query
             | Some prior \<Rightarrow>
                 (case resp_output prior of
                    None \<Rightarrow> user_query
                  | Some out \<Rightarrow> py_str (out_result out))))
     else user_query)"




section \<open>Example inputs\<close>

text \<open>Agents, transports, a context and plans on which the theorems below are run.\<close>

definition ex_context :: agent_context where
  "ex_context = \<lparr> ctx_user_id = ''anonymous'', ctx_conversation_id = ''c1'',
     ctx_timestamp = ''2025-01-01T00:00:00+00:00'', ctx_file_uploads = Some [] \<rparr>"

definition ex_world :: world where
  "ex_world = \<lparr> calls = 0, posted = [] \<rparr>"

definition ex_builder :: AgentMetadata where
  "ex_builder = \<lparr> meta_name = ''KnowledgeBaseBuilderAgent'', meta_type = ''http'',
     meta_endpoint = Some ''http://kb/handle'', meta_timeout_ms = 30000 \<rparr>"

definition ex_resolver :: AgentMetadata where
  "ex_resolver = \<lparr> meta_name = ''task_dependency_agent'', meta_type = ''http'',
     meta_endpoint = Some ''http://tda/handle'', meta_timeout_ms = 30000 \<rparr>"

definition ex_cli_agent :: AgentMetadata where
  "ex_cli_agent = \<lparr> meta_name = ''shell_agent'', meta_type = ''cli'',
     meta_endpoint = None, meta_timeout_ms = 30000 \<rparr>"

definition ex_unconfigured :: AgentMetadata where
  "ex_unconfigured = \<lparr> meta_name = ''draft_agent'', meta_type = ''grpc'',
     meta_endpoint = None, meta_timeout_ms = 30000 \<rparr>"

definition ok_reply :: "AgentRequest \<Rightarrow> AgentResponse" where
  "ok_reply rq = \<lparr> resp_request_id = req_request_id rq, resp_agent_name = req_agent_name rq,
     resp_status = ''success'', resp_output = Some \<lparr> out_result = PStr ''done'' \<rparr>,
     resp_error = None \<rparr>"

definition ex_uuid :: "nat \<Rightarrow> string" where
  "ex_uuid n = ''req-'' @ str_nat n"

text \<open>Every agent answers the given status code with a well-formed success body.\<close>

definition ex_transport :: "int \<Rightarrow> transport" where
  "ex_transport code = \<lparr> httpx_installed = True, uuid4 = ex_uuid,
     post = (\<lambda>n endpoint timeout rq. Replied code (Parsed (ok_reply rq))) \<rparr>"

text \<open>No agent can be reached.\<close>

definition ex_transport_down :: transport where
  "ex_transport_down = \<lparr> httpx_installed = True, uuid4 = ex_uuid,
     post = (\<lambda>n endpoint timeout rq. Raised ''All connection attempts failed'') \<rparr>"

definition ex_upload_empty :: file_upload where
  "ex_upload_empty = [(''base64_data'', ''''), (''filename'', ''notes.pdf''),
     (''mime_type'', ''application/pdf'')]"

definition ex_upload :: file_upload where
  "ex_upload = [(''base64_data'', ''SGVsbG8=''), (''filename'', ''notes.pdf''),
     (''mime_type'', ''application/pdf'')]"

definition ex_create_task :: Step where
  "ex_create_task = \<lparr> step_id = 1, step_agent = ''KnowledgeBaseBuilderAgent'',
     step_intent = ''create_task'', step_input_source = ''user_query'' \<rparr>"

definition ex_follow_up :: Step where
  "ex_follow_up = \<lparr> step_id = 2, step_agent = ''KnowledgeBaseBuilderAgent'',
     step_intent = ''summarize'', step_input_source = ''step:1'' \<rparr>"

definition ex_answer_42 :: AgentResponse where
  "ex_answer_42 = \<lparr> resp_request_id = ''req-7'', resp_agent_name = ''calculator'',
     resp_status = ''success'', resp_output = Some \<lparr> out_result = PStr ''42'' \<rparr>,
     resp_error = None \<rparr>"

definition ex_ghost_step :: Step where
  "ex_ghost_step = \<lparr> step_id = 0, step_agent = ''ghost_agent'',
     step_intent = ''summarize'', step_input_source = ''user_query'' \<rparr>"

definition ex_cli_step :: Step where
  "ex_cli_step = \<lparr> step_id = 1, step_agent = ''shell_agent'',
     step_intent = ''run'', step_input_source = ''user_query'' \<rparr>"

definition ex_draft_step :: Step where
  "ex_draft_step = \<lparr> step_id = 1, step_agent = ''draft_agent'',
     step_intent = ''draft'', step_input_source = ''user_query'' \<rparr>"

section \<open>The agent caller\<close>

lemma call_agent_returns:
  "\<exists>r w'. call_agent tr agent_meta intent text ctx custom_input w = (Inr r, w')"
  by (simp add: call_agent_def Let_def split: sum.split)

lemma http_branch:
  assumes "meta_type agent_meta = ''http''" "endpoint_set agent_meta" "httpx_installed tr"
  shows "call_agent tr agent_meta intent text ctx custom_input w =
    (case http_attempt tr (calls w) agent_meta (uuid4 tr (calls w))
            (build_handshake (uuid4 tr (calls w)) agent_meta intent text ctx) of
       Inr r \<Rightarrow> Inr r
     | Inl exc \<Rightarrow> Inr (error_response (uuid4 tr (calls w)) agent_meta ''network_error'' (exn_str exc)),
     w\<lparr>calls := Suc (calls w),
       posted := posted w @ [(endpoint_url agent_meta,
          build_handshake (uuid4 tr (calls w)) agent_meta intent text ctx)]\<rparr>)"
  using assms by (simp add: call_agent_def Let_def)

text \<open>
  Claim C3. For every agent metadata, intent, text and context, \<^verbatim>\<open>call_agent\<close> returns a
  response and lets no exception escape. The response is either the well-formed body of a reply
  with status 200 to an http agent with an endpoint, or a structured error: status \<open>error\<close>, no
  output, and an error model of one of the four types. So a transport fault, a timeout, a
  malformed reply, a missing transport, an unsupported type and a missing endpoint all end in a
  response with status \<open>error\<close>.
\<close>

theorem call_agent_never_raises:
  "\<exists>r w'. call_agent tr agent_meta intent text ctx custom_input w = (Inr r, w') \<and>
     ((meta_type agent_meta = ''http'' \<and> endpoint_set agent_meta \<and> httpx_installed tr \<and>
        post tr (calls w) (endpoint_url agent_meta) (meta_timeout_ms agent_meta)
          (build_handshake (uuid4 tr (calls w)) agent_meta intent text ctx) = Replied 200 (Parsed r))
      \<or> (resp_status r = ''error'' \<and> resp_output r = None \<and>
          (\<exists>e. resp_error r = Some e \<and>
             err_type e \<in> set [''http_error'', ''network_error'', ''config_error'', ''not_implemented''])))"
  by (auto simp add: call_agent_def http_attempt_def error_response_def Let_def
      split: sum.split post_outcome.split reply_body.split)


theorem call_agent_never_raises_witness:
  "\<exists>r w'. call_agent ex_transport_down ex_builder ''create_task'' ''q'' ex_context None ex_world = (Inr r, w')
      \<and> resp_status r = ''error''
      \<and> resp_error r = Some \<lparr> err_type = ''network_error'', err_message = ''All connection attempts failed'' \<rparr>"
  using call_agent_never_raises [of ex_transport_down ex_builder "''create_task''" "''q''" ex_context None ex_world]
  by (simp add: call_agent_def http_attempt_def error_response_def endpoint_set_def endpoint_url_def
      ex_transport_down_def ex_builder_def ex_world_def Let_def)

text \<open>
  Claim C5, as amended. For an http agent with an endpoint and an installed transport, a reply whose
  status code is not exactly 200 gives status \<open>error\<close> with type \<open>http_error\<close> and the message
  "HTTP <code> calling <endpoint>"; a reply with status 200 and a well-formed body is returned as
  it is, and one with status 200 and a malformed body gives \<open>network_error\<close>. The test is
  \<^verbatim>\<open>resp.status_code != 200\<close> (line 78), so the other 2xx codes are errors too.
\<close>

theorem http_status_200_only:
  assumes "meta_type agent_meta = ''http''" and "endpoint_set agent_meta" and "httpx_installed tr"
    and "post tr (calls w) (endpoint_url agent_meta) (meta_timeout_ms agent_meta)
           (build_handshake (uuid4 tr (calls w)) agent_meta intent text ctx) = Replied status_code body"
  shows "fst (call_agent tr agent_meta intent text ctx custom_input w) =
     (if status_code \<noteq> 200
      then Inr \<lparr> resp_request_id = uuid4 tr (calls w), resp_agent_name = meta_name agent_meta,
                 resp_status = ''error'', resp_output = None,
                 resp_error = Some \<lparr> err_type = ''http_error'',
                   err_message = ''HTTP '' @ str_int status_code @ '' calling '' @ endpoint_url agent_meta \<rparr> \<rparr>
      else (case body of
              Parsed r \<Rightarrow> Inr r
            | Unparsable msg \<Rightarrow>
                Inr \<lparr> resp_request_id = uuid4 tr (calls w), resp_agent_name = meta_name agent_meta,
                      resp_status = ''error'', resp_output = None,
                      resp_error = Some \<lparr> err_type = ''network_error'', err_message = msg \<rparr> \<rparr>))"
  using assms(4) by (simp add: http_branch [OF assms(1-3)] http_attempt_def error_response_def
      split: reply_body.split)

theorem http_status_200_only_witness:
  "fst (call_agent (ex_transport 500) ex_builder ''create_task'' ''q'' ex_context None ex_world) =
     Inr \<lparr> resp_request_id = ''req-0'', resp_agent_name = ''KnowledgeBaseBuilderAgent'',
           resp_status = ''error'', resp_output = None,
           resp_error = Some \<lparr> err_type = ''http_error'',
             err_message = ''HTTP 500 calling http://kb/handle'' \<rparr> \<rparr>"
proof -
  have ty: "meta_type ex_builder = ''http''" by (simp add: ex_builder_def)
  have ep: "endpoint_set ex_builder" by (simp add: ex_builder_def endpoint_set_def)
  have hx: "httpx_installed (ex_transport 500)" by (simp add: ex_transport_def)
  have po: "post (ex_transport 500) (calls ex_world) (endpoint_url ex_builder) (meta_timeout_ms ex_builder)
       (build_handshake (uuid4 (ex_transport 500) (calls ex_world)) ex_builder ''create_task'' ''q'' ex_context)
     = Replied 500 (Parsed (ok_reply (build_handshake (uuid4 (ex_transport 500) (calls ex_world)) ex_builder ''create_task'' ''q'' ex_context)))"
    by (simp add: ex_transport_def)
  have s: "str_int 500 = ''500''" by (simp add: str_int_def digit_char_def)
  show ?thesis
    using http_status_200_only [OF ty ep hx po, of None]
    by (simp add: s ex_builder_def ex_transport_def ex_world_def ex_uuid_def endpoint_url_def digit_char_def)
qed

text \<open>
  The claim as written fails at status 201: the agent's well-formed success body is dropped and
  an \<open>http_error\<close> is returned.
\<close>

theorem http_201_counterexample:
  "post (ex_transport 201) 0 ''http://kb/handle'' 30000
      (build_handshake ''req-0'' ex_builder ''create_task'' ''q'' ex_context)
     = Replied 201 (Parsed (ok_reply (build_handshake ''req-0'' ex_builder ''create_task'' ''q'' ex_context)))
   \<and> fst (call_agent (ex_transport 201) ex_builder ''create_task'' ''q'' ex_context None ex_world) =
     Inr \<lparr> resp_request_id = ''req-0'', resp_agent_name = ''KnowledgeBaseBuilderAgent'',
           resp_status = ''error'', resp_output = None,
           resp_error = Some \<lparr> err_type = ''http_error'',
             err_message = ''HTTP 201 calling http://kb/handle'' \<rparr> \<rparr>
   \<and> fst (call_agent (ex_transport 201) ex_builder ''create_task'' ''q'' ex_context None ex_world) \<noteq>
     Inr (ok_reply (build_handshake ''req-0'' ex_builder ''create_task'' ''q'' ex_context))"
proof -
  have s: "str_int 201 = ''201''" by (simp add: str_int_def digit_char_def)
  show ?thesis
    by (simp add: s call_agent_def http_attempt_def error_response_def endpoint_set_def endpoint_url_def
      ex_transport_def ex_builder_def ex_world_def ex_uuid_def ok_reply_def Let_def digit_char_def)
qed

lemma build_metadata_cases:
  "build_metadata ctx =
     (case ctx_file_uploads ctx of
        Some (first_file # rest) \<Rightarrow>
          if dict_get first_file ''base64_data'' '''' \<noteq> ''''
          then [(''language'', JStr ''en''), (''extra'', JObj []),
                (''file_base64'', JStr (dict_get first_file ''base64_data'' '''')),
                (''mime_type'', JStr (dict_get first_file ''mime_type'' ''application/octet-stream'')),
                (''filename'', JStr (dict_get first_file ''filename'' ''uploaded_file''))]
          else [(''language'', JStr ''en''), (''extra'', JObj [])]
      | _ \<Rightarrow> [(''language'', JStr ''en''), (''extra'', JObj [])])"
  by (simp add: build_metadata_def dict_set_def Let_def split: option.split list.split)

lemma call_agent_posted:
  "posted (snd (call_agent tr agent_meta intent text ctx custom_input w)) =
     (if meta_type agent_meta = ''http'' \<and> endpoint_set agent_meta \<and> httpx_installed tr
      then posted w @ [(endpoint_url agent_meta,
             build_handshake (uuid4 tr (calls w)) agent_meta intent text ctx)]
      else posted w)"
  by (simp add: call_agent_def Let_def)

text \<open>
  Claim C9, as amended. Every request that \<^verbatim>\<open>call_agent\<close> posts is the handshake it built, whose
  input is the text and a metadata mapping that always carries \<open>language: en\<close>. When the context
  holds at least one upload and the first upload's base64 payload is not empty, that payload, the
  MIME type (default \<open>application/octet-stream\<close>) and the file name (default \<open>uploaded_file\<close>)
  of the first upload are added, and later uploads are ignored. When there is no upload, or the
  first upload's payload is missing or empty (the test of line 48), nothing is added.
\<close>

theorem handshake_metadata:
  "(posted (snd (call_agent tr agent_meta intent text ctx custom_input w)) = posted w
     \<or> posted (snd (call_agent tr agent_meta intent text ctx custom_input w)) =
         posted w @ [(endpoint_url agent_meta, build_handshake (uuid4 tr (calls w)) agent_meta intent text ctx)])
   \<and> req_input (build_handshake request_id agent_meta intent text ctx) =
        [(''text'', JStr text), (''metadata'', JObj (build_metadata ctx))]
   \<and> map_of (build_metadata ctx) ''language'' = Some (JStr ''en'')
   \<and> (\<forall>first_file rest.
         ctx_file_uploads ctx = Some (first_file # rest) \<and> dict_get first_file ''base64_data'' '''' \<noteq> '''' \<longrightarrow>
         build_metadata ctx =
           [(''language'', JStr ''en''), (''extra'', JObj []),
            (''file_base64'', JStr (dict_get first_file ''base64_data'' '''')),
            (''mime_type'', JStr (dict_get first_file ''mime_type'' ''application/octet-stream'')),
            (''filename'', JStr (dict_get first_file ''filename'' ''uploaded_file''))])
   \<and> (\<forall>first_file rest.
         ctx_file_uploads ctx = Some (first_file # rest) \<and> dict_get first_file ''base64_data'' '''' = '''' \<longrightarrow>
         build_metadata ctx = [(''language'', JStr ''en''), (''extra'', JObj [])])
   \<and> (ctx_file_uploads ctx = None \<or> ctx_file_uploads ctx = Some [] \<longrightarrow>
         build_metadata ctx = [(''language'', JStr ''en''), (''extra'', JObj [])])"
proof -
  have lang: "map_of (build_metadata ctx) ''language'' = Some (JStr ''en'')"
    by (simp add: build_metadata_cases split: option.split list.split)
  show ?thesis
    by (simp only: lang call_agent_posted) (auto simp add: build_metadata_cases build_handshake_def)
qed

theorem handshake_metadata_witness:
  "build_metadata (ex_context\<lparr>ctx_file_uploads := Some [ex_upload, ex_upload_empty]\<rparr>) =
     [(''language'', JStr ''en''), (''extra'', JObj []), (''file_base64'', JStr ''SGVsbG8=''),
      (''mime_type'', JStr ''application/pdf''), (''filename'', JStr ''notes.pdf'')]
   \<and> build_metadata (ex_context\<lparr>ctx_file_uploads := Some [ex_upload_empty, ex_upload]\<rparr>) =
     [(''language'', JStr ''en''), (''extra'', JObj [])]
   \<and> build_metadata ex_context = [(''language'', JStr ''en''), (''extra'', JObj [])]"
  using handshake_metadata
      [of "ex_transport 200" ex_builder "''i''" "''t''" "ex_context\<lparr>ctx_file_uploads := Some [ex_upload, ex_upload_empty]\<rparr>" None ex_world "''r''"]
    handshake_metadata
      [of "ex_transport 200" ex_builder "''i''" "''t''" "ex_context\<lparr>ctx_file_uploads := Some [ex_upload_empty, ex_upload]\<rparr>" None ex_world "''r''"]
    handshake_metadata
      [of "ex_transport 200" ex_builder "''i''" "''t''" "ex_context" None ex_world "''r''"]
  by (simp add: ex_context_def ex_upload_def ex_upload_empty_def dict_get_def)

text \<open>
  The claim as written fails for a context with exactly one upload whose payload is empty: its
  file name and MIME type are not embedded.
\<close>

theorem single_empty_upload_counterexample:
  "ctx_file_uploads (ex_context\<lparr>ctx_file_uploads := Some [ex_upload_empty]\<rparr>) = Some [ex_upload_empty]
   \<and> map_of ex_upload_empty ''filename'' = Some ''notes.pdf''
   \<and> map_of ex_upload_empty ''mime_type'' = Some ''application/pdf''
   \<and> map_of ex_upload_empty ''base64_data'' = Some ''''
   \<and> req_input (build_handshake ''req-0'' ex_builder ''summarize'' ''q''
         (ex_context\<lparr>ctx_file_uploads := Some [ex_upload_empty]\<rparr>)) =
       [(''text'', JStr ''q''), (''metadata'', JObj [(''language'', JStr ''en''), (''extra'', JObj [])])]"
  by (simp add: build_handshake_def build_metadata_def ex_context_def ex_upload_empty_def dict_get_def)

section \<open>The input resolver\<close>

lemma split_on_nonempty: "split_on c s \<noteq> []"
  by (induction s) (auto split: list.split)

lemma split_on_hd: "split_on c s = p # ps \<Longrightarrow> p = takeWhile (\<lambda>x. x \<noteq> c) s"
proof (induction s arbitrary: p ps)
  case Nil
  then show ?case by simp
next
  case (Cons x s)
  obtain q qs where q: "split_on c s = q # qs"
    using split_on_nonempty [of c s] by (cases "split_on c s") auto
  with Cons show ?case by (auto split: if_splits)
qed

lemma split_step_prefix:
  "split_on CHR '':'' (''step:'' @ rest) = ''step'' # split_on CHR '':'' rest"
  using split_on_nonempty [of "CHR '':''" rest] by (cases "split_on CHR '':'' rest") auto

lemma startswith_step:
  assumes "startswith s ''step:''"
  shows "s = ''step:'' @ drop 5 s"
proof -
  have "take (length ''step:'') s = ''step:''"
    using assms by (simp only: startswith_def)
  moreover have "length ''step:'' = 5" by simp
  ultimately have "take 5 s = ''step:''" by (simp only:)
  then show ?thesis by (metis append_take_drop_id)
qed

lemma takeWhile_twice:
  "takeWhile P (takeWhile Q xs) = takeWhile (\<lambda>x. Q x \<and> P x) xs"
  by (induction xs) auto

lemma step_reference_segment:
  assumes "startswith s ''step:''"
  shows "\<exists>part parts seg segs. split_on CHR '':'' s = ''step'' # part # parts
     \<and> split_on CHR ''.'' part = seg # segs \<and> seg = leading_id_segment s"
proof -
  let ?rest = "drop 5 s"
  obtain part parts where p: "split_on CHR '':'' ?rest = part # parts"
    using split_on_nonempty [of "CHR '':''" ?rest] by (cases "split_on CHR '':'' ?rest") auto
  obtain seg segs where q: "split_on CHR ''.'' part = seg # segs"
    using split_on_nonempty [of "CHR ''.''" part] by (cases "split_on CHR ''.'' part") auto
  have "split_on CHR '':'' s = ''step'' # part # parts"
    using startswith_step [OF assms] split_step_prefix [of ?rest] p by simp
  moreover have "part = takeWhile (\<lambda>x. x \<noteq> CHR '':'') ?rest"
    using split_on_hd [OF p] .
  moreover have "seg = takeWhile (\<lambda>x. x \<noteq> CHR ''.'') part"
    using split_on_hd [OF q] .
  ultimately show ?thesis
    using q by (simp add: leading_id_segment_def takeWhile_twice)
qed

text \<open>
  Claim C7. For every input source, user query and ledger, \<open>resolve_input\<close> returns (it never
  raises) exactly what its contract says: the query itself for \<open>user_query\<close>; for a reference
  \<open>step:<id>\<close> with an optional suffix, whose leading id segment is accepted by \<^verbatim>\<open>int\<close> as an id
  that the ledger holds with an output, the string form of that output's result; and the query in
  every other case (the segment is no integer, the id is not in the ledger, the response has no
  output, or the source is any other literal). Only the leading segment of the reference is read;
  it ends at the first dot or colon.
\<close>

theorem resolve_input_meets_contract:
  "resolve_input input_source user_query ledger =
     Inr (resolve_input_contract input_source user_query ledger)"
proof (cases "input_source \<noteq> ''user_query'' \<and> startswith input_source ''step:''")
  case True
  then obtain part parts seg segs where
    "split_on CHR '':'' input_source = ''step'' # part # parts"
    "split_on CHR ''.'' part = seg # segs" "seg = leading_id_segment input_source"
    using step_reference_segment by blast
  with True show ?thesis
    by (simp add: resolve_input_def resolve_input_contract_def py_nth_def Let_def
        split: sum.split option.split)
next
  case False
  then show ?thesis
    by (auto simp add: resolve_input_def resolve_input_contract_def)
qed

theorem resolve_input_meets_contract_witness:
  "resolve_input ''step:2'' ''what is the answer'' [(2, ex_answer_42)] = Inr ''42''
   \<and> resolve_input ''step:2.result'' ''what is the answer'' [(2, ex_answer_42)] = Inr ''42''
   \<and> resolve_input ''step:3'' ''what is the answer'' [(2, ex_answer_42)] = Inr ''what is the answer''
   \<and> resolve_input ''step:two'' ''what is the answer'' [(2, ex_answer_42)] = Inr ''what is the answer''
   \<and> resolve_input ''user_query'' ''what is the answer'' [(2, ex_answer_42)] = Inr ''what is the answer''
   \<and> resolve_input ''latest'' ''what is the answer'' [(2, ex_answer_42)] = Inr ''what is the answer''"
  using resolve_input_meets_contract [of "''step:2''" "''what is the answer''" "[(2, ex_answer_42)]"]
    resolve_input_meets_contract [of "''step:2.result''" "''what is the answer''" "[(2, ex_answer_42)]"]
    resolve_input_meets_contract [of "''step:3''" "''what is the answer''" "[(2, ex_answer_42)]"]
    resolve_input_meets_contract [of "''step:two''" "''what is the answer''" "[(2, ex_answer_42)]"]
    resolve_input_meets_contract [of "''user_query''" "''what is the answer''" "[(2, ex_answer_42)]"]
    resolve_input_meets_contract [of "''latest''" "''what is the answer''" "[(2, ex_answer_42)]"]
  by (simp add: resolve_input_contract_def startswith_def leading_id_segment_def py_int_def strip_def
      is_space_def parse_unsigned_def is_digit_def digit_val_def ex_answer_42_def)

lemma resolve_input_returns:
  "\<exists>text. resolve_input input_source user_query ledger = Inr text"
proof (cases "input_source \<noteq> ''user_query'' \<and> startswith input_source ''step:''")
  case True
  then obtain part parts seg segs where
    "split_on CHR '':'' input_source = ''step'' # part # parts"
    "split_on CHR ''.'' part = seg # segs"
    using step_reference_segment by blast
  with True show ?thesis
    by (simp add: resolve_input_def py_nth_def Let_def split: sum.split option.split)
next
  case False
  then show ?thesis
    by (auto simp add: resolve_input_def)
qed

section \<open>The plan executor\<close>

text \<open>
  Claim C2, checked on a run. The override \<open>{trigger: database_update}\<close> that the executor passes
  as \<open>custom_input\<close> is never read by \<^verbatim>\<open>call_agent\<close>: a call with any override is the call
  with none. In the run of a plan with one successful \<open>create_task\<close> step of the builder, the
  request posted to the dependency resolver has the default input, an empty text and the
  metadata, and no \<open>trigger\<close> key.
\<close>

theorem chained_request_keeps_default_input:
  "(\<forall>tr agent_meta intent text ctx custom_input w.
      call_agent tr agent_meta intent text ctx custom_input w
        = call_agent tr agent_meta intent text ctx None w)
   \<and> (case execute_plan (ex_transport 200) ''make tasks'' \<lparr> steps = [ex_create_task] \<rparr>
            [ex_builder, ex_resolver] ex_context ex_world of
        Inl exc \<Rightarrow> False
      | Inr (res, w) \<Rightarrow>
          map (\<lambda>(endpoint, rq). (endpoint, req_intent rq, req_input rq)) (posted w) =
            [(''http://kb/handle'', ''create_task'',
                [(''text'', JStr ''make tasks''),
                 (''metadata'', JObj [(''language'', JStr ''en''), (''extra'', JObj [])])]),
             (''http://tda/handle'', ''task.resolve_dependencies'',
                [(''text'', JStr ''''),
                 (''metadata'', JObj [(''language'', JStr ''en''), (''extra'', JObj [])])])])"
  apply (rule conjI)
   apply (simp add: call_agent_def)
  apply (simp add: execute_plan_def exec_step_def auto_chain_def find_agent_by_name_def resolve_input_def
      call_agent_def http_attempt_def build_handshake_def build_metadata_def endpoint_set_def endpoint_url_def
      ex_transport_def ex_builder_def ex_resolver_def ex_context_def ex_world_def ex_create_task_def ok_reply_def
      dict_set_def Let_def)
  done

text \<open>Lookups in the registry, and the ledger as a dict.\<close>

lemma find_agent_returns:
  "\<exists>agent_meta. find_agent_by_name name registry = Inr agent_meta \<and> meta_name agent_meta = name"
  by (induction registry) (auto simp add: find_agent_by_name_def not_found_metadata_def)

lemma find_agent_absent:
  "name \<notin> meta_name ` set registry \<Longrightarrow>
     find_agent_by_name name registry = Inr (not_found_metadata name)"
  by (induction registry) (auto simp add: find_agent_by_name_def)

lemma dict_set_keys: "set (dict_keys (dict_set d k v)) = insert k (set (dict_keys d))"
  by (simp add: dict_keys_def dict_set_def dom_update)

lemma dict_set_lookup: "map_of (dict_set d k v) k' = (if k' = k then Some v else map_of d k')"
  by (simp add: dict_set_def update_conv')

lemma dict_set_fresh: "k \<notin> set (dict_keys d) \<Longrightarrow> dict_set d k v = d @ [(k, v)]"
  by (induction d) (auto simp add: dict_set_def dict_keys_def)

lemma lookup_append_kept:
  "k \<in> set (dict_keys d) \<Longrightarrow> map_of (d @ extra) k = map_of d k"
proof -
  assume "k \<in> set (dict_keys d)"
  then have "map_of d k \<noteq> None"
    by (simp add: dict_keys_def map_of_eq_None_iff)
  then show ?thesis
    by (auto simp add: map_add_def split: option.split)
qed

lemma next_step_id_Max:
  "d \<noteq> [] \<Longrightarrow> next_step_id d = Max (set (dict_keys d)) + 1"
  by (cases d) (simp_all add: next_step_id_def dict_keys_def Max.set_eq_fold [symmetric])

lemma next_step_id_above:
  assumes "k \<in> set (dict_keys d)"
  shows "k < next_step_id d"
proof -
  from assms have ne: "d \<noteq> []" by (auto simp add: dict_keys_def)
  have "k \<le> Max (set (dict_keys d))" using assms by simp
  then show ?thesis by (simp add: next_step_id_Max [OF ne])
qed

lemma next_step_id_fresh: "next_step_id d \<notin> set (dict_keys d)"
  using next_step_id_above [of "next_step_id d" d] by auto

lemma auto_chain_found:
  assumes "find_agent_by_name ''task_dependency_agent'' registry = Inr tda_meta"
    and "call_agent tr tda_meta ''task.resolve_dependencies'' '''' ctx
           (Some [(''trigger'', JStr ''database_update'')]) (env st) = (Inr tda_response, w')"
  shows "auto_chain tr registry ctx st =
     st\<lparr>step_outputs := step_outputs st @ [(next_step_id (step_outputs st), tda_response)],
        used_agents := used_agents st @
          [\<lparr> used_name = meta_name tda_meta, used_intent = ''task.resolve_dependencies'',
             used_status = resp_status tda_response \<rparr>],
        env := w'\<rparr>"
  using assms by (simp add: auto_chain_def dict_set_fresh [OF next_step_id_fresh])

lemma call_agent_unroutable:
  assumes "meta_type agent_meta \<noteq> ''cli''" and "meta_type agent_meta \<noteq> ''http''"
  shows "call_agent tr agent_meta intent input_text ctx custom_input w =
      (Inr (error_response (uuid4 tr (calls w)) agent_meta ''config_error''
              ''Agent endpoint/command not configured''),
       w\<lparr>calls := Suc (calls w)\<rparr>)"
  using assms by (simp add: call_agent_def Let_def)

text \<open>
  One iteration of the loop: the lookup, the resolver and the call return, the response is
  recorded under the step's id with its usage entry, and what the auto-chain adds comes after,
  under a key that was not there.
\<close>

lemma exec_step_shape:
  "\<exists>agent_meta input_text response w1 extra_out extra_used w2.
      find_agent_by_name (step_agent step) registry = Inr agent_meta
    \<and> meta_name agent_meta = step_agent step
    \<and> resolve_input (step_input_source step) query (step_outputs st) = Inr input_text
    \<and> call_agent tr agent_meta (step_intent step) input_text ctx None (env st) = (Inr response, w1)
    \<and> exec_step tr query registry ctx step st =
         Inr \<lparr> step_outputs = dict_set (step_outputs st) (step_id step) response @ extra_out,
               used_agents = used_agents st @
                 \<lparr> used_name = step_agent step, used_intent = step_intent step,
                   used_status = resp_status response \<rparr> # extra_used,
               env = w2 \<rparr>
    \<and> (\<forall>k \<in> set (dict_keys extra_out).
          k \<notin> set (dict_keys (dict_set (step_outputs st) (step_id step) response)))
    \<and> (resp_status response \<noteq> ''success'' \<longrightarrow> extra_out = [] \<and> extra_used = [] \<and> w2 = w1)"
proof -
  obtain agent_meta where f: "find_agent_by_name (step_agent step) registry = Inr agent_meta"
    and n: "meta_name agent_meta = step_agent step"
    using find_agent_returns by blast
  obtain input_text where r: "resolve_input (step_input_source step) query (step_outputs st) = Inr input_text"
    using resolve_input_returns by blast
  obtain response w1 where c:
    "call_agent tr agent_meta (step_intent step) input_text ctx None (env st) = (Inr response, w1)"
    using call_agent_returns by blast
  let ?ledger = "dict_set (step_outputs st) (step_id step) response"
  let ?entry = "\<lparr> used_name = step_agent step, used_intent = step_intent step,
                   used_status = resp_status response \<rparr>"
  let ?st1 = "st\<lparr>step_outputs := ?ledger, used_agents := used_agents st @ [?entry], env := w1\<rparr>"
  show ?thesis
  proof (cases "step_agent step = ''KnowledgeBaseBuilderAgent'' \<and> resp_status response = ''success''
                  \<and> step_intent step = ''create_task''")
    case False
    then have run: "exec_step tr query registry ctx step st =
        Inr \<lparr> step_outputs = ?ledger @ [], used_agents = used_agents st @ ?entry # [], env = w1 \<rparr>"
      using f n r c by (cases st) (auto simp add: exec_step_def Let_def)
    have fresh: "\<forall>k \<in> set (dict_keys ([] :: (int \<times> AgentResponse) list)). k \<notin> set (dict_keys ?ledger)"
      by (simp add: dict_keys_def)
    show ?thesis
      using f n r c run fresh by blast
  next
    case True
    obtain tda_meta where t: "find_agent_by_name ''task_dependency_agent'' registry = Inr tda_meta"
      using find_agent_returns by blast
    obtain tda_response w2 where tc:
      "call_agent tr tda_meta ''task.resolve_dependencies'' '''' ctx
         (Some [(''trigger'', JStr ''database_update'')]) (env ?st1) = (Inr tda_response, w2)"
      using call_agent_returns by blast
    have chained: "auto_chain tr registry ctx ?st1 =
        \<lparr> step_outputs = ?ledger @ [(next_step_id ?ledger, tda_response)],
              used_agents = used_agents st @ ?entry #
                [\<lparr> used_name = meta_name tda_meta, used_intent = ''task.resolve_dependencies'',
                   used_status = resp_status tda_response \<rparr>],
              env = w2 \<rparr>"
      unfolding auto_chain_found [OF t tc] by (cases st) simp
    have "exec_step tr query registry ctx step st = Inr (auto_chain tr registry ctx ?st1)"
      using True f n r c by (simp add: exec_step_def Let_def)
    then have run: "exec_step tr query registry ctx step st =
        Inr \<lparr> step_outputs = ?ledger @ [(next_step_id ?ledger, tda_response)],
              used_agents = used_agents st @ ?entry #
                [\<lparr> used_name = meta_name tda_meta, used_intent = ''task.resolve_dependencies'',
                   used_status = resp_status tda_response \<rparr>],
              env = w2 \<rparr>"
      by (simp only: chained)
    have fresh: "\<forall>k \<in> set (dict_keys [(next_step_id ?ledger, tda_response)]). k \<notin> set (dict_keys ?ledger)"
      using next_step_id_fresh [of ?ledger] by (simp add: dict_keys_def)
    show ?thesis
      using f n r c run fresh True by blast
  qed
qed

lemma exec_steps_append:
  "exec_steps tr query registry ctx (xs @ ys) st =
     (case exec_steps tr query registry ctx xs st of
        Inl exc \<Rightarrow> Inl exc
      | Inr st' \<Rightarrow> exec_steps tr query registry ctx ys st')"
  by (induction xs arbitrary: st) (auto split: sum.split)

text \<open>What one iteration does to the ledger and the usage log.\<close>

lemma exec_step_runs:
  "\<exists>agent_meta input_text response w1 st1 more.
      find_agent_by_name (step_agent step) registry = Inr agent_meta
    \<and> resolve_input (step_input_source step) query (step_outputs st) = Inr input_text
    \<and> call_agent tr agent_meta (step_intent step) input_text ctx None (env st) = (Inr response, w1)
    \<and> exec_step tr query registry ctx step st = Inr st1
    \<and> map_of (step_outputs st1) (step_id step) = Some response
    \<and> (resp_status response = ''error'' \<longrightarrow>
         st1 = st\<lparr>step_outputs := dict_set (step_outputs st) (step_id step) response,
                  used_agents := used_agents st @
                    [\<lparr> used_name = step_agent step, used_intent = step_intent step,
                       used_status = ''error'' \<rparr>],
                  env := w1\<rparr>)
    \<and> set (dict_keys (step_outputs st1)) \<supseteq> insert (step_id step) (set (dict_keys (step_outputs st)))
    \<and> (\<forall>k \<in> set (dict_keys (step_outputs st)).
          k \<noteq> step_id step \<longrightarrow> map_of (step_outputs st1) k = map_of (step_outputs st) k)
    \<and> used_agents st1 = used_agents st @
         \<lparr> used_name = step_agent step, used_intent = step_intent step,
           used_status = resp_status response \<rparr> # more"
proof -
  obtain agent_meta input_text response w1 extra_out extra_used w2 where s:
    "find_agent_by_name (step_agent step) registry = Inr agent_meta"
    "resolve_input (step_input_source step) query (step_outputs st) = Inr input_text"
    "call_agent tr agent_meta (step_intent step) input_text ctx None (env st) = (Inr response, w1)"
    "exec_step tr query registry ctx step st =
         Inr \<lparr> step_outputs = dict_set (step_outputs st) (step_id step) response @ extra_out,
               used_agents = used_agents st @
                 \<lparr> used_name = step_agent step, used_intent = step_intent step,
                   used_status = resp_status response \<rparr> # extra_used,
               env = w2 \<rparr>"
    "resp_status response \<noteq> ''success'' \<longrightarrow> extra_out = [] \<and> extra_used = [] \<and> w2 = w1"
    using exec_step_shape [of step registry query st tr ctx] by blast
  let ?ledger = "dict_set (step_outputs st) (step_id step) response"
  let ?st1 = "\<lparr> step_outputs = ?ledger @ extra_out,
               used_agents = used_agents st @
                 \<lparr> used_name = step_agent step, used_intent = step_intent step,
                   used_status = resp_status response \<rparr> # extra_used,
               env = w2 \<rparr>"
  have own: "map_of (step_outputs ?st1) (step_id step) = Some response"
  proof -
    have "step_id step \<in> set (dict_keys ?ledger)" by (simp add: dict_set_keys)
    from lookup_append_kept [OF this, of extra_out] show ?thesis
      by (simp add: dict_set_lookup del: map_of_append)
  qed
  have err: "resp_status response = ''error'' \<longrightarrow>
         ?st1 = st\<lparr>step_outputs := ?ledger,
                   used_agents := used_agents st @
                     [\<lparr> used_name = step_agent step, used_intent = step_intent step,
                        used_status = ''error'' \<rparr>],
                   env := w1\<rparr>"
    using s(5) by (cases st) auto
  have keys: "set (dict_keys (step_outputs ?st1)) \<supseteq> insert (step_id step) (set (dict_keys (step_outputs st)))"
    using dict_set_keys [of "step_outputs st" "step_id step" response] by (auto simp add: dict_keys_def)
  have kept: "\<forall>k \<in> set (dict_keys (step_outputs st)).
          k \<noteq> step_id step \<longrightarrow> map_of (step_outputs ?st1) k = map_of (step_outputs st) k"
  proof (intro ballI impI)
    fix k
    assume k: "k \<in> set (dict_keys (step_outputs st))" and ne: "k \<noteq> step_id step"
    have "k \<in> set (dict_keys ?ledger)" using k by (simp add: dict_set_keys)
    from lookup_append_kept [OF this, of extra_out]
    show "map_of (step_outputs ?st1) k = map_of (step_outputs st) k"
      using ne by (simp add: dict_set_lookup del: map_of_append)
  qed
  have used: "used_agents ?st1 = used_agents st @
         \<lparr> used_name = step_agent step, used_intent = step_intent step,
           used_status = resp_status response \<rparr> # extra_used"
    by simp
  show ?thesis
    using s(1-4) own err keys kept used by blast
qed

text \<open>The loop from any state: it returns, and nothing recorded is lost.\<close>

lemma exec_steps_run:
  "\<exists>final more.
      exec_steps tr query registry ctx xs st = Inr final
    \<and> set (dict_keys (step_outputs st)) \<union> step_id ` set xs \<subseteq> set (dict_keys (step_outputs final))
    \<and> (\<forall>k \<in> set (dict_keys (step_outputs st)).
          k \<notin> step_id ` set xs \<longrightarrow> map_of (step_outputs final) k = map_of (step_outputs st) k)
    \<and> used_agents final = used_agents st @ more \<and> length xs \<le> length more"
proof (induction xs arbitrary: st)
  case Nil
  then show ?case by simp
next
  case (Cons x xs)
  obtain st1 entry1 more1 where a:
    "exec_step tr query registry ctx x st = Inr st1"
    "set (dict_keys (step_outputs st1)) \<supseteq> insert (step_id x) (set (dict_keys (step_outputs st)))"
    "\<forall>k \<in> set (dict_keys (step_outputs st)).
          k \<noteq> step_id x \<longrightarrow> map_of (step_outputs st1) k = map_of (step_outputs st) k"
    "used_agents st1 = used_agents st @ entry1 # more1"
    using exec_step_runs [of x registry query st tr ctx] by blast
  obtain final more where b:
    "exec_steps tr query registry ctx xs st1 = Inr final"
    "set (dict_keys (step_outputs st1)) \<union> step_id ` set xs \<subseteq> set (dict_keys (step_outputs final))"
    "\<forall>k \<in> set (dict_keys (step_outputs st1)).
          k \<notin> step_id ` set xs \<longrightarrow> map_of (step_outputs final) k = map_of (step_outputs st1) k"
    "used_agents final = used_agents st1 @ more" "length xs \<le> length more"
    using Cons.IH [of st1] by blast
  have run: "exec_steps tr query registry ctx (x # xs) st = Inr final"
    using a(1) b(1) by simp
  have keys: "set (dict_keys (step_outputs st)) \<union> step_id ` set (x # xs) \<subseteq> set (dict_keys (step_outputs final))"
    using a(2) b(2) by auto
  have kept: "\<forall>k \<in> set (dict_keys (step_outputs st)).
          k \<notin> step_id ` set (x # xs) \<longrightarrow> map_of (step_outputs final) k = map_of (step_outputs st) k"
    using a(2,3) b(3) by auto
  have used: "used_agents final = used_agents st @ (entry1 # more1 @ more)"
    using a(4) b(4) by simp
  have count: "length (x # xs) \<le> length (entry1 # more1 @ more)"
    using b(5) by simp
  show ?case
    using run keys kept used count by blast
qed

text \<open>The iteration for a step whose agent is not registered.\<close>

lemma exec_step_absent:
  assumes "step_agent step \<notin> meta_name ` set registry"
  shows "exec_step tr query registry ctx step st =
     Inr (st\<lparr>step_outputs := dict_set (step_outputs st) (step_id step)
                 \<lparr> resp_request_id = uuid4 tr (calls (env st)), resp_agent_name = step_agent step,
                   resp_status = ''error'', resp_output = None,
                   resp_error = Some \<lparr> err_type = ''config_error'',
                     err_message = ''Agent endpoint/command not configured'' \<rparr> \<rparr>,
              used_agents := used_agents st @
                 [\<lparr> used_name = step_agent step, used_intent = step_intent step,
                    used_status = ''error'' \<rparr>],
              env := (env st)\<lparr>calls := Suc (calls (env st))\<rparr>\<rparr>)"
proof -
  let ?nf = "not_found_metadata (step_agent step)"
  have f: "find_agent_by_name (step_agent step) registry = Inr ?nf"
    using assms by (rule find_agent_absent)
  obtain input_text where r: "resolve_input (step_input_source step) query (step_outputs st) = Inr input_text"
    using resolve_input_returns by blast
  have c: "call_agent tr ?nf (step_intent step) input_text ctx None (env st) =
      (Inr (error_response (uuid4 tr (calls (env st))) ?nf ''config_error''
              ''Agent endpoint/command not configured''),
       (env st)\<lparr>calls := Suc (calls (env st))\<rparr>)"
    by (rule call_agent_unroutable) (simp_all add: not_found_metadata_def)
  show ?thesis
    using f r c by (simp add: exec_step_def Let_def error_response_def not_found_metadata_def)
qed

text \<open>The definitions unfolded to run the model on the example inputs.\<close>

lemmas run_defs = execute_plan_def exec_step_def auto_chain_def find_agent_by_name_def
  not_found_metadata_def
  resolve_input_def call_agent_def http_attempt_def error_response_def build_handshake_def
  build_metadata_def endpoint_set_def endpoint_url_def dict_set_def dict_keys_def next_step_id_def
  startswith_def py_nth_def py_int_def strip_def is_space_def parse_unsigned_def is_digit_def
  digit_val_def Let_def

lemmas ex_defs = ex_transport_def ex_transport_down_def ex_builder_def ex_resolver_def ex_cli_agent_def
  ex_unconfigured_def ex_context_def ex_world_def ex_uuid_def ok_reply_def ex_create_task_def
  ex_follow_up_def ex_ghost_step_def ex_cli_step_def ex_draft_step_def str_int_def digit_char_def


text \<open>
  Claim C10. Whenever the auto-chain fires (the step is a successful \<open>create_task\<close> of the builder
  and the dependency resolver is registered), the ledger at that moment already holds the trigger
  step's entry: it is not empty, so the case "0 if the ledger is empty" does not occur, the
  synthetic id is the maximum of the keys present plus one and is greater than each of them, and
  recording the synthetic entry appends it to the ledger and changes no entry that was there.
\<close>

theorem synthetic_id_is_fresh:
  assumes "find_agent_by_name (step_agent step) registry = Inr agent_meta"
    and "resolve_input (step_input_source step) query (step_outputs st) = Inr text"
    and "call_agent tr agent_meta (step_intent step) text ctx None (env st) = (Inr response, w)"
    and "step_agent step = ''KnowledgeBaseBuilderAgent'' \<and> resp_status response = ''success''
           \<and> step_intent step = ''create_task''"
    and "find_agent_by_name ''task_dependency_agent'' registry = Inr tda_meta"
    and "call_agent tr tda_meta ''task.resolve_dependencies'' '''' ctx
           (Some [(''trigger'', JStr ''database_update'')]) w = (Inr tda_response, w')"
    and "ledger = dict_set (step_outputs st) (step_id step) response"
  shows "ledger \<noteq> [] \<and> map_of ledger (step_id step) = Some response
     \<and> next_step_id ledger = Max (set (dict_keys ledger)) + 1
     \<and> (\<forall>k \<in> set (dict_keys ledger). k < next_step_id ledger)
     \<and> (\<exists>st'. exec_step tr query registry ctx step st = Inr st'
          \<and> step_outputs st' = ledger @ [(next_step_id ledger, tda_response)]
          \<and> (\<forall>k \<in> set (dict_keys ledger). map_of (step_outputs st') k = map_of ledger k))"
proof -
  have key: "step_id step \<in> set (dict_keys ledger)"
    by (simp add: assms(7) dict_set_keys)
  then have ne: "ledger \<noteq> []" by (auto simp add: dict_keys_def)
  have look: "map_of ledger (step_id step) = Some response"
    by (simp add: assms(7) dict_set_lookup)
  let ?st1 = "st\<lparr>step_outputs := ledger,
                  used_agents := used_agents st @
                    [\<lparr> used_name = meta_name agent_meta, used_intent = step_intent step,
                       used_status = resp_status response \<rparr>],
                  env := w\<rparr>"
  have chain: "call_agent tr tda_meta ''task.resolve_dependencies'' '''' ctx
           (Some [(''trigger'', JStr ''database_update'')]) (env ?st1) = (Inr tda_response, w')"
    using assms(6) by simp
  have run: "exec_step tr query registry ctx step st = Inr (auto_chain tr registry ctx ?st1)"
    using assms(1-4) by (simp add: exec_step_def Let_def assms(7))
  have out: "step_outputs (auto_chain tr registry ctx ?st1) = ledger @ [(next_step_id ledger, tda_response)]"
    by (simp add: auto_chain_found [OF assms(5) chain])
  have keep: "\<forall>k \<in> set (dict_keys ledger). map_of (ledger @ [(next_step_id ledger, tda_response)]) k = map_of ledger k"
  proof
    fix k assume "k \<in> set (dict_keys ledger)"
    then have "map_of ledger k \<noteq> None"
      by (simp add: dict_keys_def map_of_eq_None_iff)
    then show "map_of (ledger @ [(next_step_id ledger, tda_response)]) k = map_of ledger k"
      by (auto simp add: map_add_def split: option.split)
  qed
  show ?thesis
    using ne look next_step_id_Max [OF ne] next_step_id_above [of _ ledger] run out keep by auto
qed

theorem synthetic_id_is_fresh_witness:
  "\<exists>st'. exec_step (ex_transport 200) ''make tasks'' [ex_builder, ex_resolver] ex_context ex_create_task
        \<lparr> step_outputs = [], used_agents = [], env = ex_world \<rparr> = Inr st'
     \<and> map (\<lambda>(k, r). (k, resp_agent_name r)) (step_outputs st') =
          [(1, ''KnowledgeBaseBuilderAgent''), (2, ''task_dependency_agent'')]"
proof -
  let ?tr = "ex_transport 200"
  let ?reg = "[ex_builder, ex_resolver]"
  let ?st = "\<lparr> step_outputs = [], used_agents = [], env = ex_world \<rparr>"
  let ?r1 = "ok_reply (build_handshake ''req-0'' ex_builder ''create_task'' ''make tasks'' ex_context)"
  let ?w1 = "\<lparr> calls = 1, posted = [(''http://kb/handle'',
       build_handshake ''req-0'' ex_builder ''create_task'' ''make tasks'' ex_context)] \<rparr>"
  let ?r2 = "ok_reply (build_handshake ''req-1'' ex_resolver ''task.resolve_dependencies'' '''' ex_context)"
  let ?w2 = "\<lparr> calls = 2, posted = [(''http://kb/handle'',
       build_handshake ''req-0'' ex_builder ''create_task'' ''make tasks'' ex_context),
       (''http://tda/handle'',
       build_handshake ''req-1'' ex_resolver ''task.resolve_dependencies'' '''' ex_context)] \<rparr>"
  have h1: "find_agent_by_name (step_agent ex_create_task) ?reg = Inr ex_builder"
    by (simp add: find_agent_by_name_def ex_defs)
  have h2: "resolve_input (step_input_source ex_create_task) ''make tasks'' (step_outputs ?st) = Inr ''make tasks''"
    by (simp add: resolve_input_def ex_defs)
  have h3: "call_agent ?tr ex_builder (step_intent ex_create_task) ''make tasks'' ex_context None (env ?st)
      = (Inr ?r1, ?w1)"
    by (simp add: call_agent_def http_attempt_def endpoint_set_def endpoint_url_def Let_def ex_defs)
  have h4: "step_agent ex_create_task = ''KnowledgeBaseBuilderAgent'' \<and> resp_status ?r1 = ''success''
      \<and> step_intent ex_create_task = ''create_task''"
    by (simp add: ex_defs)
  have h5: "find_agent_by_name ''task_dependency_agent'' ?reg = Inr ex_resolver"
    by (simp add: find_agent_by_name_def ex_defs)
  have h6: "call_agent ?tr ex_resolver ''task.resolve_dependencies'' '''' ex_context
      (Some [(''trigger'', JStr ''database_update'')]) ?w1 = (Inr ?r2, ?w2)"
    by (simp add: call_agent_def http_attempt_def endpoint_set_def endpoint_url_def Let_def ex_defs)
  show ?thesis
    using synthetic_id_is_fresh [OF h1 h2 h3 h4 h5 h6 refl]
    by (auto simp add: dict_set_def next_step_id_def dict_keys_def ex_defs build_handshake_def)
qed

text \<open>
  Claim C1. For every plan step whose agent name is absent from the registry, \<^verbatim>\<open>execute_plan\<close>
  does not abort the loop. The steps before it have run; the lookup gives the not-found metadata,
  the invocation proceeds and yields a response with status \<open>error\<close> and error type
  \<open>config_error\<close>, which is recorded in the ledger under the step's id together with an
  \<open>error\<close> usage entry; the steps after it then run, each getting its ledger key and usage
  entry, and \<^verbatim>\<open>execute_plan\<close> returns the state they leave. The \<open>config_error\<close> entry is in the
  final ledger unless a later step of the plan has the same id.
\<close>

theorem absent_agent_config_error:
  "\<forall>pre step rest.
      steps plan = pre @ step # rest \<and> step_agent step \<notin> meta_name ` set registry \<longrightarrow>
      (\<exists>st st1 final.
          exec_steps tr query registry ctx pre \<lparr> step_outputs = [], used_agents = [], env = w \<rparr> = Inr st
        \<and> st1 = st\<lparr>step_outputs := dict_set (step_outputs st) (step_id step)
                      \<lparr> resp_request_id = uuid4 tr (calls (env st)), resp_agent_name = step_agent step,
                        resp_status = ''error'', resp_output = None,
                        resp_error = Some \<lparr> err_type = ''config_error'',
                          err_message = ''Agent endpoint/command not configured'' \<rparr> \<rparr>,
                   used_agents := used_agents st @
                      [\<lparr> used_name = step_agent step, used_intent = step_intent step,
                         used_status = ''error'' \<rparr>],
                   env := (env st)\<lparr>calls := Suc (calls (env st))\<rparr>\<rparr>
        \<and> exec_step tr query registry ctx step st = Inr st1
        \<and> exec_steps tr query registry ctx rest st1 = Inr final
        \<and> execute_plan tr query plan registry ctx w =
             Inr ((step_outputs final, used_agents final), env final)
        \<and> step_id ` set rest \<subseteq> set (dict_keys (step_outputs final))
        \<and> length (used_agents st1) + length rest \<le> length (used_agents final)
        \<and> (step_id step \<notin> step_id ` set rest \<longrightarrow>
             (\<exists>response. map_of (step_outputs final) (step_id step) = Some response
                \<and> resp_status response = ''error''
                \<and> map_option err_type (resp_error response) = Some ''config_error'')))"
proof (intro allI impI)
  fix pre :: "Step list" and step :: Step and rest :: "Step list"
  assume a: "steps plan = pre @ step # rest \<and> step_agent step \<notin> meta_name ` set registry"
  let ?init = "\<lparr> step_outputs = [], used_agents = [], env = w \<rparr>"
  obtain st where p: "exec_steps tr query registry ctx pre ?init = Inr st"
    using exec_steps_run [of tr query registry ctx pre ?init] by blast
  let ?response = "\<lparr> resp_request_id = uuid4 tr (calls (env st)), resp_agent_name = step_agent step,
                        resp_status = ''error'', resp_output = None,
                        resp_error = Some \<lparr> err_type = ''config_error'',
                          err_message = ''Agent endpoint/command not configured'' \<rparr> \<rparr>"
  let ?st1 = "st\<lparr>step_outputs := dict_set (step_outputs st) (step_id step) ?response,
                   used_agents := used_agents st @
                      [\<lparr> used_name = step_agent step, used_intent = step_intent step,
                         used_status = ''error'' \<rparr>],
                   env := (env st)\<lparr>calls := Suc (calls (env st))\<rparr>\<rparr>"
  have s: "exec_step tr query registry ctx step st = Inr ?st1"
    using a by (simp add: exec_step_absent)
  obtain final more where r:
    "exec_steps tr query registry ctx rest ?st1 = Inr final"
    "set (dict_keys (step_outputs ?st1)) \<union> step_id ` set rest \<subseteq> set (dict_keys (step_outputs final))"
    "\<forall>k \<in> set (dict_keys (step_outputs ?st1)).
          k \<notin> step_id ` set rest \<longrightarrow> map_of (step_outputs final) k = map_of (step_outputs ?st1) k"
    "used_agents final = used_agents ?st1 @ more" "length rest \<le> length more"
    using exec_steps_run [of tr query registry ctx rest ?st1] by blast
  have whole: "execute_plan tr query plan registry ctx w =
             Inr ((step_outputs final, used_agents final), env final)"
    using a p s r(1) by (simp add: execute_plan_def exec_steps_append)
  have keys: "step_id ` set rest \<subseteq> set (dict_keys (step_outputs final))"
    using r(2) by simp
  have count: "length (used_agents ?st1) + length rest \<le> length (used_agents final)"
    using r(4,5) by simp
  have own: "step_id step \<in> set (dict_keys (step_outputs ?st1))"
    by (simp add: dict_set_keys)
  have kept: "step_id step \<notin> step_id ` set rest \<longrightarrow>
      map_of (step_outputs final) (step_id step) = Some ?response"
    using r(3) own by (simp add: dict_set_lookup)
  show "\<exists>st st1 final.
          exec_steps tr query registry ctx pre ?init = Inr st
        \<and> st1 = st\<lparr>step_outputs := dict_set (step_outputs st) (step_id step)
                      \<lparr> resp_request_id = uuid4 tr (calls (env st)), resp_agent_name = step_agent step,
                        resp_status = ''error'', resp_output = None,
                        resp_error = Some \<lparr> err_type = ''config_error'',
                          err_message = ''Agent endpoint/command not configured'' \<rparr> \<rparr>,
                   used_agents := used_agents st @
                      [\<lparr> used_name = step_agent step, used_intent = step_intent step,
                         used_status = ''error'' \<rparr>],
                   env := (env st)\<lparr>calls := Suc (calls (env st))\<rparr>\<rparr>
        \<and> exec_step tr query registry ctx step st = Inr st1
        \<and> exec_steps tr query registry ctx rest st1 = Inr final
        \<and> execute_plan tr query plan registry ctx w =
             Inr ((step_outputs final, used_agents final), env final)
        \<and> step_id ` set rest \<subseteq> set (dict_keys (step_outputs final))
        \<and> length (used_agents st1) + length rest \<le> length (used_agents final)
        \<and> (step_id step \<notin> step_id ` set rest \<longrightarrow>
             (\<exists>response. map_of (step_outputs final) (step_id step) = Some response
                \<and> resp_status response = ''error''
                \<and> map_option err_type (resp_error response) = Some ''config_error''))"
    using p s r(1) whole keys count kept
    by (intro exI [of _ st] exI [of _ ?st1] exI [of _ final]) simp
qed

theorem absent_agent_config_error_witness:
  "step_agent ex_ghost_step \<notin> meta_name ` set [ex_builder, ex_resolver]
   \<and> (\<exists>ledger usage w'.
        execute_plan (ex_transport 200) ''make tasks'' \<lparr> steps = [ex_ghost_step, ex_create_task] \<rparr>
          [ex_builder, ex_resolver] ex_context ex_world = Inr ((ledger, usage), w')
        \<and> map (\<lambda>(k, r). (k, resp_agent_name r, resp_status r, map_option err_type (resp_error r))) ledger =
            [(0, ''ghost_agent'', ''error'', Some ''config_error''),
             (1, ''KnowledgeBaseBuilderAgent'', ''success'', None),
             (2, ''task_dependency_agent'', ''success'', None)]
        \<and> map (\<lambda>u. (used_name u, used_status u)) usage =
            [(''ghost_agent'', ''error''), (''KnowledgeBaseBuilderAgent'', ''success''),
             (''task_dependency_agent'', ''success'')])"
proof -
  let ?plan = "\<lparr> steps = [ex_ghost_step, ex_create_task] \<rparr>"
  let ?registry = "[ex_builder, ex_resolver]"
  have absent: "step_agent ex_ghost_step \<notin> meta_name ` set ?registry"
    by (simp add: ex_defs)
  have split: "steps ?plan = [] @ ex_ghost_step # [ex_create_task]"
    by simp
  have returns: "\<exists>result. execute_plan (ex_transport 200) ''make tasks'' ?plan ?registry ex_context ex_world
      = Inr result"
    using absent_agent_config_error [rule_format, OF conjI, OF split absent,
        of "ex_transport 200" "''make tasks''" ex_context ex_world]
    by (elim exE conjE) (rule exI)
  have eval: "\<exists>ledger usage w'.
        execute_plan (ex_transport 200) ''make tasks'' ?plan ?registry ex_context ex_world
          = Inr ((ledger, usage), w')
        \<and> map (\<lambda>(k, r). (k, resp_agent_name r, resp_status r, map_option err_type (resp_error r))) ledger =
            [(0, ''ghost_agent'', ''error'', Some ''config_error''),
             (1, ''KnowledgeBaseBuilderAgent'', ''success'', None),
             (2, ''task_dependency_agent'', ''success'', None)]
        \<and> map (\<lambda>u. (used_name u, used_status u)) usage =
            [(''ghost_agent'', ''error''), (''KnowledgeBaseBuilderAgent'', ''success''),
             (''task_dependency_agent'', ''success'')]"
    by (simp add: run_defs ex_defs)
  from returns absent eval show ?thesis
    by (intro conjI)
qed

text \<open>
  Claim C6. Execution never stops at a step error. For every plan, \<^verbatim>\<open>execute_plan\<close> returns
  the state that the loop leaves after the last step; that state has a ledger key for every step
  of the plan and at least one usage entry per step. Every step, whatever the responses before
  it were, is run in its turn on the state its predecessors left: its agent is called, the
  response is recorded in the ledger under the step's id, and the steps after it run from there
  to the returned state. A step whose response has status \<open>error\<close> contributes exactly that
  error entry to the ledger and one usage entry with status \<open>error\<close>; its usage entry is in the
  returned log, and its response is in the returned ledger unless a later step has the same id.
\<close>

theorem no_short_circuit_on_error:
  "\<exists>final.
      execute_plan tr query plan registry ctx w =
        Inr ((step_outputs final, used_agents final), env final)
    \<and> step_id ` set (steps plan) \<subseteq> set (dict_keys (step_outputs final))
    \<and> length (steps plan) \<le> length (used_agents final)
    \<and> (\<forall>pre step rest. steps plan = pre @ step # rest \<longrightarrow>
         (\<exists>st agent_meta input_text response w1 st1.
             exec_steps tr query registry ctx pre \<lparr> step_outputs = [], used_agents = [], env = w \<rparr> = Inr st
           \<and> find_agent_by_name (step_agent step) registry = Inr agent_meta
           \<and> resolve_input (step_input_source step) query (step_outputs st) = Inr input_text
           \<and> call_agent tr agent_meta (step_intent step) input_text ctx None (env st) = (Inr response, w1)
           \<and> exec_step tr query registry ctx step st = Inr st1
           \<and> map_of (step_outputs st1) (step_id step) = Some response
           \<and> (resp_status response = ''error'' \<longrightarrow>
                st1 = st\<lparr>step_outputs := dict_set (step_outputs st) (step_id step) response,
                         used_agents := used_agents st @
                           [\<lparr> used_name = step_agent step, used_intent = step_intent step,
                              used_status = ''error'' \<rparr>],
                         env := w1\<rparr>)
           \<and> exec_steps tr query registry ctx rest st1 = Inr final
           \<and> \<lparr> used_name = step_agent step, used_intent = step_intent step,
                 used_status = resp_status response \<rparr> \<in> set (used_agents final)
           \<and> (step_id step \<notin> step_id ` set rest \<longrightarrow>
                map_of (step_outputs final) (step_id step) = Some response)))"
proof -
  let ?init = "\<lparr> step_outputs = [], used_agents = [], env = w \<rparr>"
  obtain final more where whole:
    "exec_steps tr query registry ctx (steps plan) ?init = Inr final"
    "set (dict_keys (step_outputs ?init)) \<union> step_id ` set (steps plan) \<subseteq> set (dict_keys (step_outputs final))"
    "used_agents final = used_agents ?init @ more" "length (steps plan) \<le> length more"
    using exec_steps_run [of tr query registry ctx "steps plan" ?init] by blast
  have result: "execute_plan tr query plan registry ctx w =
        Inr ((step_outputs final, used_agents final), env final)"
    using whole(1) by (simp add: execute_plan_def)
  have keys: "step_id ` set (steps plan) \<subseteq> set (dict_keys (step_outputs final))"
    using whole(2) by simp
  have count: "length (steps plan) \<le> length (used_agents final)"
    using whole(3,4) by simp
  have each: "\<exists>st agent_meta input_text response w1 st1.
             exec_steps tr query registry ctx pre ?init = Inr st
           \<and> find_agent_by_name (step_agent step) registry = Inr agent_meta
           \<and> resolve_input (step_input_source step) query (step_outputs st) = Inr input_text
           \<and> call_agent tr agent_meta (step_intent step) input_text ctx None (env st) = (Inr response, w1)
           \<and> exec_step tr query registry ctx step st = Inr st1
           \<and> map_of (step_outputs st1) (step_id step) = Some response
           \<and> (resp_status response = ''error'' \<longrightarrow>
                st1 = st\<lparr>step_outputs := dict_set (step_outputs st) (step_id step) response,
                         used_agents := used_agents st @
                           [\<lparr> used_name = step_agent step, used_intent = step_intent step,
                              used_status = ''error'' \<rparr>],
                         env := w1\<rparr>)
           \<and> exec_steps tr query registry ctx rest st1 = Inr final
           \<and> \<lparr> used_name = step_agent step, used_intent = step_intent step,
                 used_status = resp_status response \<rparr> \<in> set (used_agents final)
           \<and> (step_id step \<notin> step_id ` set rest \<longrightarrow>
                map_of (step_outputs final) (step_id step) = Some response)"
    if split: "steps plan = pre @ step # rest" for pre step rest
  proof -
    obtain st where a: "exec_steps tr query registry ctx pre ?init = Inr st"
      using exec_steps_run [of tr query registry ctx pre ?init] by blast
    obtain agent_meta input_text response w1 st1 more1 where b:
      "find_agent_by_name (step_agent step) registry = Inr agent_meta"
      "resolve_input (step_input_source step) query (step_outputs st) = Inr input_text"
      "call_agent tr agent_meta (step_intent step) input_text ctx None (env st) = (Inr response, w1)"
      "exec_step tr query registry ctx step st = Inr st1"
      "map_of (step_outputs st1) (step_id step) = Some response"
      "resp_status response = ''error'' \<longrightarrow>
         st1 = st\<lparr>step_outputs := dict_set (step_outputs st) (step_id step) response,
                  used_agents := used_agents st @
                    [\<lparr> used_name = step_agent step, used_intent = step_intent step,
                       used_status = ''error'' \<rparr>],
                  env := w1\<rparr>"
      "set (dict_keys (step_outputs st1)) \<supseteq> insert (step_id step) (set (dict_keys (step_outputs st)))"
      "used_agents st1 = used_agents st @
         \<lparr> used_name = step_agent step, used_intent = step_intent step,
           used_status = resp_status response \<rparr> # more1"
      using exec_step_runs [of step registry query st tr ctx] by blast
    obtain final' more2 where c:
      "exec_steps tr query registry ctx rest st1 = Inr final'"
      "\<forall>k \<in> set (dict_keys (step_outputs st1)).
          k \<notin> step_id ` set rest \<longrightarrow> map_of (step_outputs final') k = map_of (step_outputs st1) k"
      "used_agents final' = used_agents st1 @ more2"
      using exec_steps_run [of tr query registry ctx rest st1] by blast
    have "exec_steps tr query registry ctx (steps plan) ?init = Inr final'"
      using split a b(4) c(1) by (simp add: exec_steps_append)
    then have same: "final' = final"
      using whole(1) by simp
    have logged: "\<lparr> used_name = step_agent step, used_intent = step_intent step,
                 used_status = resp_status response \<rparr> \<in> set (used_agents final)"
      using b(8) c(3) same by simp
    have kept: "step_id step \<notin> step_id ` set rest \<longrightarrow>
                map_of (step_outputs final) (step_id step) = Some response"
      using b(5,7) c(2) same by auto
    show ?thesis
      using a b(1-6) c(1) same logged kept by blast
  qed
  show ?thesis
    using result keys count each by blast
qed

theorem no_short_circuit_on_error_witness:
  "(\<exists>ledger usage w'.
     execute_plan (ex_transport 200) ''list files'' \<lparr> steps = [ex_cli_step, ex_follow_up] \<rparr>
        [ex_cli_agent, ex_builder] ex_context ex_world = Inr ((ledger, usage), w')
     \<and> map (\<lambda>(k, r). (k, resp_status r)) ledger = [(1, ''error''), (2, ''success'')]
     \<and> map used_status usage = [''error'', ''success''])
   \<and> (\<exists>ledger usage w'.
     execute_plan (ex_transport 200) ''list files'' \<lparr> steps = [ex_cli_step, ex_ghost_step, ex_follow_up] \<rparr>
        [ex_cli_agent, ex_builder] ex_context ex_world = Inr ((ledger, usage), w')
     \<and> map (\<lambda>(k, r). (k, resp_status r)) ledger = [(1, ''error''), (0, ''error''), (2, ''success'')]
     \<and> map used_status usage = [''error'', ''error'', ''success''])"
  using no_short_circuit_on_error [of "ex_transport 200" "''list files''"
      "\<lparr> steps = [ex_cli_step, ex_follow_up] \<rparr>" "[ex_cli_agent, ex_builder]" ex_context ex_world]
  by (simp add: run_defs ex_defs)


text \<open>
  Claim C4, checked on a run. The step ids 1 and 2 are distinct; the builder's \<open>create_task\<close>
  step 1 succeeds, the chained call of the dependency resolver is recorded under the synthetic
  id 2, and step 2 of the plan then overwrites that entry: the final ledger has the two plan
  entries only, both of the builder, while the usage log and the posted requests show the three
  calls.
\<close>

theorem synthetic_id_overwritten:
  "distinct (map step_id [ex_create_task, ex_follow_up])
   \<and> (case execute_plan (ex_transport 200) ''make tasks'' \<lparr> steps = [ex_create_task, ex_follow_up] \<rparr>
            [ex_builder, ex_resolver] ex_context ex_world of
        Inl exc \<Rightarrow> False
      | Inr ((ledger, usage), w') \<Rightarrow>
          map (\<lambda>(k, r). (k, resp_agent_name r)) ledger =
            [(1, ''KnowledgeBaseBuilderAgent''), (2, ''KnowledgeBaseBuilderAgent'')]
          \<and> map (\<lambda>u. (used_name u, used_intent u, used_status u)) usage =
            [(''KnowledgeBaseBuilderAgent'', ''create_task'', ''success''),
             (''task_dependency_agent'', ''task.resolve_dependencies'', ''success''),
             (''KnowledgeBaseBuilderAgent'', ''summarize'', ''success'')]
          \<and> map (\<lambda>(endpoint, rq). (endpoint, req_input rq)) (posted w') =
            [(''http://kb/handle'',
                [(''text'', JStr ''make tasks''),
                 (''metadata'', JObj [(''language'', JStr ''en''), (''extra'', JObj [])])]),
             (''http://tda/handle'',
                [(''text'', JStr ''''),
                 (''metadata'', JObj [(''language'', JStr ''en''), (''extra'', JObj [])])]),
             (''http://kb/handle'',
                [(''text'', JStr ''done''),
                 (''metadata'', JObj [(''language'', JStr ''en''), (''extra'', JObj [])])])])"
  by (simp add: run_defs ex_defs)

end
